theory Spec2Isabelle
  imports Complex_Main
begin

section \<open>Model-based curation: applying a trained classifier to unit metrics\<close>

text \<open>
  A shallow embedding of \<^verbatim>\<open>spikeinterface/curation/model_based_curation.py\<close>:
  the class \<^verbatim>\<open>ModelBasedClassification\<close> with its methods
  \<^verbatim>\<open>predict_labels\<close>, \<^verbatim>\<open>_get_metrics_for_classification\<close>,
  \<^verbatim>\<open>_check_params_for_classification\<close> and \<^verbatim>\<open>_export_to_phy\<close>, and the module
  function \<^verbatim>\<open>_load_model_from_folder\<close>. A leading underscore is not part of an
  Isabelle name, so the private methods appear without it.

  Exceptions are values of the type \<open>error\<close>; a method that mutates an object,
  warns or writes a file takes the state and returns the new one together with its
  result. Operations of pandas, numpy, scikit-learn, skops, json and pathlib are not
  part of the module: they are parameters (the records \<open>library\<close>,
  \<open>filesystem\<close> and \<open>sk_pipeline\<close>).
\<close>

subsection \<open>Python values and exceptions\<close>

datatype pyval =
    PNone
  | PBool bool
  | PInt int
  | PFloat real
  | PStr string
  | PList "pyval list"
  | PTuple "pyval list"
  | PDict "(string \<times> pyval) list"

text \<open>
  \<open>MissingMetrics\<close> is the two-argument \<^verbatim>\<open>ValueError\<close> of metric assembly: its
  message and the set that the f-string \<^verbatim>\<open>Missing metrics: {...}\<close> prints.
\<close>

datatype error =
    ValueError string
  | MissingMetrics string "string set"
  | KeyError string
  | TypeError string
  | AttributeError string
  | AssertionError string
  | LibraryError string

text \<open>
  Subscripting \<^verbatim>\<open>obj[key]\<close> with a string key: a dictionary raises
  \<^verbatim>\<open>KeyError\<close> on a missing key, every other value of \<open>pyval\<close> raises
  \<^verbatim>\<open>TypeError\<close>.
\<close>

definition py_getitem :: "pyval \<Rightarrow> string \<Rightarrow> error + pyval" where
  "py_getitem obj key =
     (case obj of
        PDict items \<Rightarrow>
          (case map_of items key of None \<Rightarrow> Inl (KeyError key) | Some v \<Rightarrow> Inr v)
      | _ \<Rightarrow> Inl (TypeError ''object is not subscriptable by a string''))"

text \<open>A chain of subscripts \<^verbatim>\<open>obj[k1][k2]...\<close>, left to right.\<close>

fun getitem_path :: "pyval \<Rightarrow> string list \<Rightarrow> error + pyval" where
  "getitem_path obj [] = Inr obj"
| "getitem_path obj (k # ks) =
     (case py_getitem obj k of Inl e \<Rightarrow> Inl e | Inr v \<Rightarrow> getitem_path v ks)"

text \<open>
  An insertion-ordered dictionary as an association list with distinct keys:
  assigning to a key that is present replaces its value in place.
\<close>

fun dict_setitem :: "('k \<times> 'v) list \<Rightarrow> 'k \<Rightarrow> 'v \<Rightarrow> ('k \<times> 'v) list" where
  "dict_setitem [] k v = [(k, v)]"
| "dict_setitem ((k', v') # d) k v =
     (if k' = k then (k, v) # d else (k', v') # dict_setitem d k v)"

definition dict_of_items :: "('k \<times> 'v) list \<Rightarrow> ('k \<times> 'v) list" where
  "dict_of_items kvs = foldl (\<lambda>d kv. dict_setitem d (fst kv) (snd kv)) [] kvs"

subsection \<open>Metrics tables\<close>

type_synonym unit_id = int

datatype cell = Finite real | PosInf | NegInf | NaN | NonNumeric

text \<open>
  A pandas DataFrame, column by column: the row index and the labelled columns,
  each column holding one cell per row. Column labels may repeat, as in pandas.
\<close>

record table =
  index :: "unit_id list"
  columns :: "(string \<times> cell list) list"

definition column_labels :: "table \<Rightarrow> string list" where
  "column_labels t = map fst (columns t)"

definition select_mask :: "bool list \<Rightarrow> 'a list \<Rightarrow> 'a list" where
  "select_mask keep xs = map snd (filter fst (zip keep xs))"

text \<open>\<^verbatim>\<open>df.loc[df.index.isin(ids)]\<close>: the rows whose index is one of \<open>ids\<close>.\<close>

definition loc_isin :: "table \<Rightarrow> unit_id list \<Rightarrow> table" where
  "loc_isin t ids =
     (let keep = map (\<lambda>u. u \<in> set ids) (index t)
      in \<lparr>index = select_mask keep (index t),
          columns = map (\<lambda>c. (fst c, select_mask keep (snd c))) (columns t)\<rparr>)"

text \<open>
  \<^verbatim>\<open>df[labels]\<close> with a list of labels: for each label in turn, every column
  that carries it; \<^verbatim>\<open>KeyError\<close> when a label is no column of the table.
\<close>

definition getitem_columns :: "table \<Rightarrow> string list \<Rightarrow> error + table" where
  "getitem_columns t labels =
     (if list_all (\<lambda>l. l \<in> set (column_labels t)) labels
      then Inr (t\<lparr>columns := concat (map (\<lambda>l. filter (\<lambda>c. fst c = l) (columns t)) labels)\<rparr>)
      else Inl (KeyError ''not in index''))"

definition isinf :: "cell \<Rightarrow> bool" where
  "isinf x = (x = PosInf \<or> x = NegInf)"

text \<open>
  \<^verbatim>\<open>input_data.map(lambda x: np.nan if np.isinf(x) else x)\<close>; \<^verbatim>\<open>np.isinf\<close>
  raises \<^verbatim>\<open>TypeError\<close> on a cell that is not a number.
\<close>

definition map_inf_to_nan :: "table \<Rightarrow> error + table" where
  "map_inf_to_nan t =
     (if list_all (\<lambda>c. list_all (\<lambda>x. x \<noteq> NonNumeric) (snd c)) (columns t)
      then Inr (t\<lparr>columns :=
             map (\<lambda>c. (fst c, map (\<lambda>x. if isinf x then NaN else x) (snd c))) (columns t)\<rparr>)
      else Inl (TypeError ''ufunc isinf not supported for the input types''))"

subsection \<open>The sorting object, the analyzer and the model\<close>

datatype property = LabelArray "pyval list" | FloatArray "real list"

record base_sorting =
  unit_ids :: "unit_id list"
  properties :: "string \<rightharpoonup> property"
  annotations :: "string \<rightharpoonup> string"

record extension =
  params :: pyval

text \<open>
  The analyzer refers to its sorting object, which is shared with the caller and
  mutated in place: the object itself lives in the state (\<open>sorting_obj\<close>), the
  analyzer record keeps what this module only reads.
\<close>

record analyzer =
  quality_metrics :: "extension option"
  template_metrics :: "extension option"

text \<open>
  The scikit-learn pipeline: the feature names it was fitted on and its two
  operations, which may raise.
\<close>

record sk_pipeline =
  feature_names_in :: "string list"
  predict :: "table \<Rightarrow> error + int list"
  predict_proba :: "table \<Rightarrow> error + real list list"

record classifier =
  sorting_analyzer :: analyzer
  pipeline :: sk_pipeline
  required_metrics :: "string list"

text \<open>
  \<^verbatim>\<open>__init__\<close>: the \<^verbatim>\<open>isinstance\<close> test on the pipeline is a matter of typing
  here.
\<close>

definition ModelBasedClassification :: "analyzer \<Rightarrow> sk_pipeline \<Rightarrow> classifier" where
  "ModelBasedClassification a p =
     \<lparr>sorting_analyzer = a, pipeline = p, required_metrics = feature_names_in p\<rparr>"

datatype model_op = Predict | PredictProba

record tsv_file =
  separator :: string
  header :: "string list"
  body :: "(unit_id \<times> pyval \<times> real) list"

text \<open>
  What the module changes or emits: the sorting object, the warnings, the calls made
  to the model with the table handed over, and the files written.
\<close>

record state =
  sorting_obj :: base_sorting
  warnings :: "string list"
  model_calls :: "(model_op \<times> table) list"
  files :: "string \<rightharpoonup> tsv_file"

definition warn :: "string \<Rightarrow> state \<Rightarrow> state" where
  "warn msg st = st\<lparr>warnings := warnings st @ [msg]\<rparr>"

text \<open>
  Library operations the module calls: the float32 coercion of \<^verbatim>\<open>astype\<close>,
  \<^verbatim>\<open>json.dumps\<close>, Python's \<^verbatim>\<open>!=\<close> on parameter values, \<^verbatim>\<open>int\<close> on a string
  (\<open>None\<close> for \<^verbatim>\<open>ValueError\<close>), \<^verbatim>\<open>try_to_get_metrics_from_analyzer\<close> of the
  training module and \<^verbatim>\<open>pd.concat(..., axis=1)\<close>.
\<close>

record library =
  float32 :: "cell \<Rightarrow> cell"
  json_dumps :: "pyval \<Rightarrow> error + string"
  py_ne :: "pyval \<Rightarrow> pyval \<Rightarrow> bool"
  py_int :: "string \<Rightarrow> int option"
  try_to_get_metrics_from_analyzer :: "analyzer \<Rightarrow> error + (table option \<times> table option)"
  pd_concat :: "table option \<Rightarrow> table option \<Rightarrow> error + table"

text \<open>
  The file system as pathlib, \<^verbatim>\<open>glob("*.skops")\<close> and \<^verbatim>\<open>json.load\<close> see it.
\<close>

record filesystem =
  is_dir :: "string \<Rightarrow> bool"
  is_file :: "string \<Rightarrow> bool"
  glob_skops :: "string \<Rightarrow> string list"
  joinpath :: "string \<Rightarrow> string \<Rightarrow> string"
  json_load :: "string \<Rightarrow> error + pyval"

definition astype_float32 :: "library \<Rightarrow> table \<Rightarrow> table" where
  "astype_float32 lib t = t\<lparr>columns := map (\<lambda>c. (fst c, map (float32 lib) (snd c))) (columns t)\<rparr>"

text \<open>
  Modelled from the spec: \<^verbatim>\<open>get_unit_ids\<close>, \<^verbatim>\<open>set_property\<close> and
  \<^verbatim>\<open>get_annotation\<close> of the sorting object and \<^verbatim>\<open>get_extension\<close> of the analyzer
  belong to the core package, which is not part of this module. The sorting's
  current units are its unit identifiers; a property is overwritten with the full
  array it is given; an annotation that was never set reads as \<^verbatim>\<open>None\<close>; an
  extension that was not computed reads as \<^verbatim>\<open>None\<close>.
\<close>

definition get_unit_ids :: "base_sorting \<Rightarrow> unit_id list" where
  "get_unit_ids s = unit_ids s"

definition set_property :: "string \<Rightarrow> property \<Rightarrow> state \<Rightarrow> state" where
  "set_property key vals st =
     st\<lparr>sorting_obj := (sorting_obj st)\<lparr>properties := (properties (sorting_obj st))(key \<mapsto> vals)\<rparr>\<rparr>"

definition get_annotation :: "base_sorting \<Rightarrow> string \<Rightarrow> string option" where
  "get_annotation s key = annotations s key"

definition get_extension :: "analyzer \<Rightarrow> string \<Rightarrow> extension option" where
  "get_extension a name =
     (if name = ''quality_metrics'' then quality_metrics a
      else if name = ''template_metrics'' then template_metrics a
      else None)"

subsection \<open>Metric assembly\<close>

text \<open>
  The first two statements of \<^verbatim>\<open>_get_metrics_for_classification\<close>: the tables of
  the analyzer, merged by \<^verbatim>\<open>pd.concat\<close>.
\<close>

definition merged_metrics :: "library \<Rightarrow> analyzer \<Rightarrow> error + table" where
  "merged_metrics lib a =
     (case try_to_get_metrics_from_analyzer lib a of
        Inl e \<Rightarrow> Inl e
      | Inr qt \<Rightarrow> pd_concat lib (fst qt) (snd qt))"

definition get_metrics_for_classification :: "library \<Rightarrow> classifier \<Rightarrow> state \<Rightarrow> error + table" where
  "get_metrics_for_classification lib slf st =
     (case merged_metrics lib (sorting_analyzer slf) of
        Inl e \<Rightarrow> Inl e
      | Inr merged \<Rightarrow>
          (let calculated_metrics = loc_isin merged (get_unit_ids (sorting_obj st))
           in if length (index calculated_metrics) = 0
              then Inl (ValueError ''No units present in sorting data'')
              else if list_all (\<lambda>r. r \<in> set (column_labels calculated_metrics)) (required_metrics slf)
              then getitem_columns calculated_metrics (required_metrics slf)
              else Inl (MissingMetrics
                     ''Input data does not contain all required metrics for classification''
                     (set (required_metrics slf) - set (column_labels calculated_metrics)))))"

subsection \<open>Parameter consistency check\<close>

definition check_quality_params :: "library \<Rightarrow> extension \<Rightarrow> pyval \<Rightarrow> state \<Rightarrow> (error + unit) \<times> state" where
  "check_quality_params lib quality_metrics_extension pipeline_info st =
     (case getitem_path pipeline_info
             [''metric_params'', ''analyzer_0'', ''quality_metric_params'', ''qm_params''] of
        Inl e \<Rightarrow> (Inl e, st)
      | Inr pipeline_quality_metrics_params \<Rightarrow>
          (case py_getitem (params quality_metrics_extension) ''qm_params'' of
             Inl e \<Rightarrow> (Inl e, st)
           | Inr quality_metrics_params \<Rightarrow>
               (case json_dumps lib quality_metrics_params of
                  Inl e \<Rightarrow> (Inl e, st)
                | Inr a \<Rightarrow>
                    (case json_dumps lib pipeline_quality_metrics_params of
                       Inl e \<Rightarrow> (Inl e, st)
                     | Inr b \<Rightarrow>
                         (Inr (),
                          if a \<noteq> b
                          then warn ''Quality metrics params do not match those used to train pipeline. Check these in the 'pipeline_info.json' file.'' st
                          else st)))))"

definition check_template_params :: "library \<Rightarrow> extension \<Rightarrow> pyval \<Rightarrow> state \<Rightarrow> (error + unit) \<times> state" where
  "check_template_params lib template_metrics_extension pipeline_info st =
     (case getitem_path pipeline_info
             [''metric_params'', ''analyzer_0'', ''template_metric_params'', ''metrics_kwargs''] of
        Inl e \<Rightarrow> (Inl e, st)
      | Inr pipeline_template_metrics_params \<Rightarrow>
          (case py_getitem (params template_metrics_extension) ''metrics_kwargs'' of
             Inl e \<Rightarrow> (Inl e, st)
           | Inr template_metrics_params \<Rightarrow>
               (Inr (),
                if py_ne lib template_metrics_params pipeline_template_metrics_params
                then warn ''Template metrics metrics params do not match those used to train pipeline. Check these in the 'model_info.json' file.'' st
                else st)))"

definition check_params_for_classification :: "library \<Rightarrow> classifier \<Rightarrow> pyval \<Rightarrow> state \<Rightarrow> (error + unit) \<times> state" where
  "check_params_for_classification lib slf pipeline_info st =
     (let quality_metrics_extension = get_extension (sorting_analyzer slf) ''quality_metrics'';
          template_metrics_extension = get_extension (sorting_analyzer slf) ''template_metrics''
      in case (case quality_metrics_extension of
                 None \<Rightarrow> (Inr (), st)
               | Some qe \<Rightarrow> check_quality_params lib qe pipeline_info st) of
           (Inl e, st1) \<Rightarrow> (Inl e, st1)
         | (Inr u, st1) \<Rightarrow>
             (case template_metrics_extension of
                None \<Rightarrow> (Inr (), st1)
              | Some te \<Rightarrow> check_template_params lib te pipeline_info st1))"

subsection \<open>Prediction\<close>

datatype input_arg = DataFrame table | OtherObject

text \<open>Lines 76 to 80 of \<^verbatim>\<open>predict_labels\<close>: the table to classify.\<close>

definition get_input :: "library \<Rightarrow> classifier \<Rightarrow> input_arg option \<Rightarrow> state \<Rightarrow> error + table" where
  "get_input lib slf input_data st =
     (case input_data of
        None \<Rightarrow> get_metrics_for_classification lib slf st
      | Some (DataFrame t) \<Rightarrow> Inr t
      | Some OtherObject \<Rightarrow> Inl (ValueError ''Input data must be a pandas DataFrame''))"

text \<open>
  The loop \<^verbatim>\<open>for key, value in ....items(): label_conversion[int(key)] = value\<close>.
  The flag tells whether it ran to its end; when \<^verbatim>\<open>int\<close> raises, the entries
  assigned so far stay in the dictionary.
\<close>

fun int_keys :: "(string \<Rightarrow> int option) \<Rightarrow> (string \<times> pyval) list \<Rightarrow> (int \<rightharpoonup> pyval) \<Rightarrow> bool \<times> (int \<rightharpoonup> pyval)" where
  "int_keys to_int [] d = (True, d)"
| "int_keys to_int (kv # kvs) d =
     (case to_int (fst kv) of
        None \<Rightarrow> (False, d)
      | Some i \<Rightarrow> int_keys to_int kvs (d(i \<mapsto> snd kv)))"

text \<open>
  Lines 85 to 93: the conversion defaulted from the metadata. The bare
  \<^verbatim>\<open>except\<close> catches every exception of the block and warns; by then
  \<^verbatim>\<open>label_conversion\<close> may already be a dictionary (empty when \<^verbatim>\<open>.items()\<close> is
  missing, partly filled when \<^verbatim>\<open>int\<close> fails).
\<close>

definition default_label_conversion :: "library \<Rightarrow> pyval \<Rightarrow> (int \<rightharpoonup> pyval) option \<Rightarrow> state \<Rightarrow> (int \<rightharpoonup> pyval) option \<times> state" where
  "default_label_conversion lib pipeline_info label_conversion st =
     (if pipeline_info \<noteq> PNone \<and> label_conversion = None
      then (case py_getitem pipeline_info ''label_conversion'' of
              Inl e \<Rightarrow>
                (None, warn ''Could not find `label_conversion` key in `pipeline_info.json` file'' st)
            | Inr string_label_conversion \<Rightarrow>
                (case string_label_conversion of
                   PDict items \<Rightarrow>
                     (case int_keys (py_int lib) items Map.empty of
                        (True, d) \<Rightarrow> (Some d, st)
                      | (False, d) \<Rightarrow>
                          (Some d, warn ''Could not find `label_conversion` key in `pipeline_info.json` file'' st))
                 | _ \<Rightarrow>
                     (Some Map.empty,
                      warn ''Could not find `label_conversion` key in `pipeline_info.json` file'' st)))
      else (label_conversion, st))"

text \<open>Lines 96 and 97: infinite values become NaN, then the float32 coercion.\<close>

definition sanitize :: "library \<Rightarrow> table \<Rightarrow> error + table" where
  "sanitize lib input_data =
     (case map_inf_to_nan input_data of
        Inl e \<Rightarrow> Inl e
      | Inr t \<Rightarrow> Inr (astype_float32 lib t))"

text \<open>
  Lines 76 to 97 together: the sanitized table and the label conversion in effect.
\<close>

definition prepare :: "library \<Rightarrow> classifier \<Rightarrow> (int \<rightharpoonup> pyval) option \<Rightarrow> input_arg option \<Rightarrow> pyval \<Rightarrow> state \<Rightarrow> (error + (table \<times> (int \<rightharpoonup> pyval) option)) \<times> state" where
  "prepare lib slf label_conversion input_data pipeline_info st =
     (case get_input lib slf input_data st of
        Inl e \<Rightarrow> (Inl e, st)
      | Inr input0 \<Rightarrow>
          (case (if pipeline_info \<noteq> PNone
                 then check_params_for_classification lib slf pipeline_info st
                 else (Inr (), st)) of
             (Inl e, st1) \<Rightarrow> (Inl e, st1)
           | (Inr u, st1) \<Rightarrow>
               (case default_label_conversion lib pipeline_info label_conversion st1 of
                  (lc, st2) \<Rightarrow>
                    (case sanitize lib input0 of
                       Inl e \<Rightarrow> (Inl e, st2)
                     | Inr X \<Rightarrow> (Inr (X, lc), st2)))))"

text \<open>
  \<^verbatim>\<open>np.max(probabilities, axis=1)\<close>: the maximum of each row; numpy raises on a
  row without entries.
\<close>

definition np_max_axis1 :: "real list list \<Rightarrow> error + real list" where
  "np_max_axis1 rows =
     (if list_all (\<lambda>r. r \<noteq> []) rows
      then Inr (map (\<lambda>r. fold max (tl r) (hd r)) rows)
      else Inl (ValueError ''zero-size array to reduction operation maximum which has no identity''))"

text \<open>Lines 100 to 102: both operations of the model, on the same table.\<close>

definition apply_classifier :: "classifier \<Rightarrow> table \<Rightarrow> state \<Rightarrow> (error + (int list \<times> real list)) \<times> state" where
  "apply_classifier slf X st =
     (let st1 = st\<lparr>model_calls := model_calls st @ [(Predict, X)]\<rparr>
      in case predict (pipeline slf) X of
           Inl e \<Rightarrow> (Inl e, st1)
         | Inr predictions \<Rightarrow>
             (let st2 = st1\<lparr>model_calls := model_calls st1 @ [(PredictProba, X)]\<rparr>
              in case predict_proba (pipeline slf) X of
                   Inl e \<Rightarrow> (Inl e, st2)
                 | Inr proba \<Rightarrow>
                     (case np_max_axis1 proba of
                        Inl e \<Rightarrow> (Inl e, st2)
                      | Inr probabilities \<Rightarrow> (Inr (predictions, probabilities), st2))))"

text \<open>
  Lines 104 to 109. Without a conversion the predictions stay the model's integers.
\<close>

definition convert_labels :: "(int \<rightharpoonup> pyval) option \<Rightarrow> int list \<Rightarrow> error + pyval list" where
  "convert_labels label_conversion predictions =
     (case label_conversion of
        None \<Rightarrow> Inr (map PInt predictions)
      | Some d \<Rightarrow>
          if list_all (\<lambda>label. d label \<noteq> None) predictions
          then Inr (map (\<lambda>label. the (d label)) predictions)
          else Inl (ValueError ''Labels in predictions do not match those in label_conversion''))"

subsection \<open>Export\<close>

text \<open>
  \<^verbatim>\<open>DataFrame.from_dict(..., orient="index", columns=[...])\<close> followed by
  \<^verbatim>\<open>to_csv(path, sep="\t", index_label="cluster_id")\<close>: the file's separator, its
  header line and one row per entry of the dictionary.
\<close>

definition to_csv :: "string list \<Rightarrow> (unit_id \<times> pyval \<times> real) list \<Rightarrow> string \<Rightarrow> string \<Rightarrow> tsv_file" where
  "to_csv cols rows sep index_label =
     \<lparr>separator = sep, header = index_label # cols, body = rows\<rparr>"

definition export_to_phy :: "filesystem \<Rightarrow> (unit_id \<times> pyval \<times> real) list \<Rightarrow> state \<Rightarrow> (error + unit) \<times> state" where
  "export_to_phy fs classified_units st =
     (case get_annotation (sorting_obj st) ''phy_folder'' of
        None \<Rightarrow>
          (Inl (ValueError ''Phy folder not found in sorting annotations, or is not a directory''), st)
      | Some sorting_path \<Rightarrow>
          if is_dir fs sorting_path
          then (Inr (),
                st\<lparr>files := (files st)(sorting_path @ ''/cluster_prediction.tsv'' \<mapsto>
                       to_csv [''prediction'', ''probability''] classified_units
                         [CHR 0x09] ''cluster_id'')\<rparr>)
          else (Inl (ValueError ''Phy folder not found in sorting annotations, or is not a directory''), st))"

subsection \<open>The method \<^verbatim>\<open>predict_labels\<close>\<close>

definition predict_labels :: "library \<Rightarrow> filesystem \<Rightarrow> classifier \<Rightarrow> (int \<rightharpoonup> pyval) option \<Rightarrow> input_arg option \<Rightarrow> bool \<Rightarrow> pyval \<Rightarrow> state \<Rightarrow> (error + (unit_id \<times> pyval \<times> real) list) \<times> state" where
  "predict_labels lib fs slf label_conversion input_data export_flag pipeline_info st =
     (case prepare lib slf label_conversion input_data pipeline_info st of
        (Inl e, st2) \<Rightarrow> (Inl e, st2)
      | (Inr xl, st2) \<Rightarrow>
          (case apply_classifier slf (fst xl) st2 of
             (Inl e, st3) \<Rightarrow> (Inl e, st3)
           | (Inr pp, st3) \<Rightarrow>
               (case convert_labels (snd xl) (fst pp) of
                  Inl e \<Rightarrow> (Inl e, st3)
                | Inr predictions \<Rightarrow>
                    (let classified_units =
                           dict_of_items (zip (index (fst xl)) (zip predictions (snd pp)));
                         st4 = set_property ''label_prediction'' (LabelArray predictions) st3;
                         st5 = set_property ''label_confidence'' (FloatArray (snd pp)) st4
                     in if export_flag
                        then (case export_to_phy fs classified_units st5 of
                                (Inl e, st6) \<Rightarrow> (Inl e, st6)
                              | (Inr u, st6) \<Rightarrow> (Inr classified_units, st6))
                        else (Inr classified_units, st5)))))"

subsection \<open>Loading a model from a folder\<close>

text \<open>
  \<^verbatim>\<open>_load_model_from_folder\<close>. Its only effect is on the warnings, so the state
  it threads is the list of warnings. \<open>skio_load\<close> is \<^verbatim>\<open>skops.io.load\<close>. The
  message about several files is a plain string literal in the source (it has no
  \<^verbatim>\<open>f\<close> prefix), so its braces are part of the text.
\<close>

definition load_model_from_folder :: "filesystem \<Rightarrow> (string \<Rightarrow> error + 'm) \<Rightarrow> string option \<Rightarrow> string option \<Rightarrow> string list \<Rightarrow> (error + ('m \<times> pyval)) \<times> string list" where
  "load_model_from_folder fs skio_load model_folder_path model_name ws =
     (case model_folder_path of
        None \<Rightarrow> (Inl (TypeError ''expected str, bytes or os.PathLike object, not NoneType''), ws)
      | Some folder \<Rightarrow>
          if \<not> is_dir fs folder
          then (Inl (AssertionError (''The folder '' @ folder @ '', does not exist.'')), ws)
          else
            (case (case model_name of
                     Some name \<Rightarrow>
                       (let skops_file = joinpath fs folder name
                        in if is_file fs skops_file
                           then (Inr skops_file, ws)
                           else (Inl (AssertionError (''Model file '' @ skops_file @ '' not found.'')), ws))
                   | None \<Rightarrow>
                       (case glob_skops fs folder of
                          [] \<Rightarrow>
                            (Inl (AssertionError (''There are no '.skops' files in the folder '' @ folder)), ws)
                        | skops_file # others \<Rightarrow>
                            (Inr skops_file,
                             if length (skops_file # others) > 1
                             then ws @ [''There are more than 1 '.skops' file in folder {folder}. Selecting {skops_file}. You can specify the file using the 'model_name' argument.'']
                             else ws))) of
               (Inl e, ws1) \<Rightarrow> (Inl e, ws1)
             | (Inr skops_file, ws1) \<Rightarrow>
                 (case skio_load skops_file of
                    Inl e \<Rightarrow> (Inl e, ws1)
                  | Inr model \<Rightarrow>
                      (let model_info_path = joinpath fs folder ''model_info.json''
                       in if \<not> is_file fs model_info_path
                          then (Inr (model, PNone),
                                ws1 @ [''No 'model_info.json' file found in folder. No metadata can be checked.''])
                          else (case json_load fs model_info_path of
                                  Inl e \<Rightarrow> (Inl e, ws1)
                                | Inr model_info \<Rightarrow> (Inr (model, model_info), ws1))))))"

subsection \<open>Concrete objects for the worked examples\<close>

text \<open>
  Three units with two metrics each, a sorting that holds these units, and
  stand-ins for the library: \<^verbatim>\<open>int\<close> on the strings \<^verbatim>\<open>"0"\<close>, \<^verbatim>\<open>"1"\<close>, \<^verbatim>\<open>"2"\<close>,
  \<^verbatim>\<open>pd.concat\<close> on tables that share their index, a float32 coercion that keeps every
  cell. The examples never reach \<^verbatim>\<open>json.dumps\<close>.
\<close>

definition ex_table :: table where
  "ex_table =
     \<lparr>index = [2, 3, 4],
      columns = [(''a'', [Finite 1, PosInf, Finite 3]), (''b'', [Finite 0, Finite 5, NegInf])]\<rparr>"

definition ex_sorting :: base_sorting where
  "ex_sorting =
     \<lparr>unit_ids = [2, 3, 4], properties = Map.empty,
      annotations = [''phy_folder'' \<mapsto> ''/data/phy'']\<rparr>"

definition ex_state :: state where
  "ex_state =
     \<lparr>sorting_obj = ex_sorting, warnings = [], model_calls = [], files = Map.empty\<rparr>"

definition ex_int :: "string \<Rightarrow> int option" where
  "ex_int s =
     (if s = ''0'' then Some 0 else if s = ''1'' then Some 1
      else if s = ''2'' then Some 2 else None)"

definition concat_aligned :: "table option \<Rightarrow> table option \<Rightarrow> error + table" where
  "concat_aligned q t =
     (case q of
        None \<Rightarrow> (case t of None \<Rightarrow> Inl (ValueError ''All objects passed were None'') | Some b \<Rightarrow> Inr b)
      | Some a \<Rightarrow>
          (case t of
             None \<Rightarrow> Inr a
           | Some b \<Rightarrow>
               if index a = index b
               then Inr \<lparr>index = index a, columns = columns a @ columns b\<rparr>
               else Inl (LibraryError ''tables with different indexes'')))"

definition ex_library :: "table option \<Rightarrow> table option \<Rightarrow> library" where
  "ex_library q t =
     \<lparr>float32 = (\<lambda>c. c),
      json_dumps = (\<lambda>v. Inl (LibraryError ''json.dumps is not part of the examples'')),
      py_ne = (\<lambda>a b. a \<noteq> b),
      py_int = ex_int,
      try_to_get_metrics_from_analyzer = (\<lambda>a. Inr (q, t)),
      pd_concat = concat_aligned\<rparr>"

definition ex_filesystem :: filesystem where
  "ex_filesystem =
     \<lparr>is_dir = (\<lambda>p. p = ''/data/phy'' \<or> p = ''/models'' \<or> p = ''/other''),
      is_file = (\<lambda>p. False),
      glob_skops = (\<lambda>folder.
        if folder = ''/models'' then [''/models/a.skops'', ''/models/b.skops'']
        else if folder = ''/other'' then [''/other/x.skops'', ''/other/y.skops'', ''/other/z.skops'']
        else []),
      joinpath = (\<lambda>a b. a @ ''/'' @ b),
      json_load = (\<lambda>p. Inl (LibraryError ''no such file''))\<rparr>"

text \<open>A loader stand-in that returns the path it was asked to load.\<close>

definition ex_skio_load :: "string \<Rightarrow> error + string" where
  "ex_skio_load skops_file = Inr skops_file"

text \<open>
  A model fitted on the columns \<open>a\<close>, \<open>b\<close> whose label for a unit is its
  identifier modulo \<open>k\<close>, with the same two class probabilities for every unit.
\<close>

definition ex_pipeline :: "int \<Rightarrow> sk_pipeline" where
  "ex_pipeline k =
     \<lparr>feature_names_in = [''a'', ''b''],
      predict = (\<lambda>t. Inr (map (\<lambda>u. u mod k) (index t))),
      predict_proba = (\<lambda>t. Inr (map (\<lambda>u. [1 / 4, 3 / 4]) (index t)))\<rparr>"

definition ex_analyzer :: analyzer where
  "ex_analyzer = \<lparr>quality_metrics = None, template_metrics = None\<rparr>"

definition ex_classifier :: "int \<Rightarrow> classifier" where
  "ex_classifier k = ModelBasedClassification ex_analyzer (ex_pipeline k)"

text \<open>
  An analyzer whose quality metrics were computed, and metadata that carries a label
  conversion but no \<^verbatim>\<open>metric_params\<close> entry.
\<close>

definition ex_analyzer_qm :: analyzer where
  "ex_analyzer_qm =
     \<lparr>quality_metrics = Some \<lparr>params = PDict [(''qm_params'', PDict [])]\<rparr>,
      template_metrics = None\<rparr>"

definition ex_info :: pyval where
  "ex_info = PDict [(''label_conversion'', PDict [(''0'', PStr ''noise''), (''1'', PStr ''good'')])]"

text \<open>A table whose columns are in the other order than the model's.\<close>

definition ex_table_swapped :: table where
  "ex_table_swapped =
     \<lparr>index = [2, 3, 4],
      columns = [(''b'', [Finite 0, Finite 5, Finite 6]), (''a'', [Finite 1, Finite 2, Finite 3])]\<rparr>"

text \<open>
  Metric tables of the analyzer: quality metrics with the column \<open>a\<close>, template
  metrics with the column \<open>b\<close>, for the units 2, 3, 4; and a sorting whose units are
  none of them.
\<close>

definition ex_quality :: table where
  "ex_quality = \<lparr>index = [2, 3, 4], columns = [(''a'', [Finite 1, PosInf, Finite 3])]\<rparr>"

definition ex_template :: table where
  "ex_template = \<lparr>index = [2, 3, 4], columns = [(''b'', [Finite 0, Finite 5, NegInf])]\<rparr>"

definition ex_state_other_units :: state where
  "ex_state_other_units = ex_state\<lparr>sorting_obj := ex_sorting\<lparr>unit_ids := [7, 8]\<rparr>\<rparr>"

text \<open>A classifier that requires the metrics \<open>a\<close>, \<open>b\<close> and \<open>c\<close>.\<close>

definition ex_classifier_abc :: classifier where
  "ex_classifier_abc =
     ModelBasedClassification ex_analyzer ((ex_pipeline 2)\<lparr>feature_names_in := [''a'', ''b'', ''c'']\<rparr>)"

text \<open>
  A model as \<open>ex_pipeline\<close> whose class probabilities differ from unit to unit:
  for the unit \<open>u\<close> they are \<open>1 / u\<close> and \<open>1 - 1 / u\<close>.
\<close>

definition ex_pipeline_graded :: "int \<Rightarrow> sk_pipeline" where
  "ex_pipeline_graded k =
     (ex_pipeline k)\<lparr>predict_proba :=
        (\<lambda>t. Inr (map (\<lambda>u. [1 / of_int u, 1 - 1 / of_int u]) (index t)))\<rparr>"

definition ex_classifier_graded :: "int \<Rightarrow> classifier" where
  "ex_classifier_graded k = ModelBasedClassification ex_analyzer (ex_pipeline_graded k)"

text \<open>
  Metric tables that share the column \<open>z\<close>, which no model here requires; a
  template table that repeats the quality column \<open>a\<close>; and a classifier that
  requires \<open>b\<close> before \<open>a\<close>.
\<close>

definition ex_quality_az :: table where
  "ex_quality_az =
     \<lparr>index = [2, 3, 4],
      columns = [(''a'', [Finite 1, PosInf, Finite 3]), (''z'', [Finite 7, Finite 7, Finite 7])]\<rparr>"

definition ex_template_bz :: table where
  "ex_template_bz =
     \<lparr>index = [2, 3, 4],
      columns = [(''b'', [Finite 0, Finite 5, NegInf]), (''z'', [Finite 8, Finite 8, Finite 8])]\<rparr>"

definition ex_template_ab :: table where
  "ex_template_ab =
     \<lparr>index = [2, 3, 4],
      columns = [(''a'', [Finite 9, Finite 9, Finite 9]), (''b'', [Finite 0, Finite 5, NegInf])]\<rparr>"

definition ex_classifier_ba :: classifier where
  "ex_classifier_ba =
     ModelBasedClassification ex_analyzer ((ex_pipeline 2)\<lparr>feature_names_in := [''b'', ''a'']\<rparr>)"

text \<open>The column labels of the tables handed to the model, call by call.\<close>

definition model_input_labels :: "state \<Rightarrow> string list list" where
  "model_input_labels st = map (\<lambda>c. column_labels (snd c)) (model_calls st)"

section \<open>Properties\<close>

subsection \<open>What the stages before the model leave untouched\<close>

text \<open>
  Everything that runs before the property assignments only warns or calls the model:
  the sorting object and the written files stay as they were.
\<close>

lemma warn_fields:
  "sorting_obj (warn msg st) = sorting_obj st"
  "files (warn msg st) = files st"
  "model_calls (warn msg st) = model_calls st"
  by (simp_all add: warn_def)

lemma check_quality_params_fields:
  assumes "check_quality_params lib qe info st = (r, st')"
  shows "sorting_obj st' = sorting_obj st \<and> files st' = files st \<and> model_calls st' = model_calls st"
  using assms
  by (auto simp: check_quality_params_def warn_fields split: sum.splits if_splits)

lemma check_template_params_fields:
  assumes "check_template_params lib te info st = (r, st')"
  shows "sorting_obj st' = sorting_obj st \<and> files st' = files st \<and> model_calls st' = model_calls st"
  using assms
  by (auto simp: check_template_params_def warn_fields split: sum.splits if_splits)

lemma check_params_fields:
  assumes "check_params_for_classification lib slf info st = (r, st')"
  shows "sorting_obj st' = sorting_obj st \<and> files st' = files st \<and> model_calls st' = model_calls st"
proof (cases "get_extension (sorting_analyzer slf) ''quality_metrics''")
  case None
  then show ?thesis
    using assms
    by (auto simp: check_params_for_classification_def Let_def
        dest: check_template_params_fields split: option.splits)
next
  case (Some qe)
  obtain r1 st1 where q: "check_quality_params lib qe info st = (r1, st1)"
    by (cases "check_quality_params lib qe info st")
  note f1 = check_quality_params_fields [OF q]
  show ?thesis
    using assms Some q f1
    by (auto simp: check_params_for_classification_def Let_def
        dest: check_template_params_fields split: option.splits sum.splits)
qed

lemma default_label_conversion_fields:
  assumes "default_label_conversion lib info lc st = (lc', st')"
  shows "sorting_obj st' = sorting_obj st \<and> files st' = files st \<and> model_calls st' = model_calls st"
  using assms
  by (auto simp: default_label_conversion_def warn_fields
      split: if_splits sum.splits pyval.splits prod.splits bool.splits)

lemma prepare_fields:
  assumes "prepare lib slf lc input_data info st = (r, st')"
  shows "sorting_obj st' = sorting_obj st \<and> files st' = files st \<and> model_calls st' = model_calls st"
proof (cases "get_input lib slf input_data st")
  case (Inl e)
  then show ?thesis using assms by (simp add: prepare_def)
next
  case (Inr input0)
  obtain r1 st1 where c: "(if info \<noteq> PNone then check_params_for_classification lib slf info st
                            else (Inr (), st)) = (r1, st1)"
    by (cases "if info \<noteq> PNone then check_params_for_classification lib slf info st else (Inr (), st)")
  have f1: "sorting_obj st1 = sorting_obj st \<and> files st1 = files st \<and> model_calls st1 = model_calls st"
    using c check_params_fields by (auto split: if_splits)
  show ?thesis
  proof (cases r1)
    case (Inl e)
    then show ?thesis using assms Inr c f1 by (simp add: prepare_def)
  next
    case (Inr u)
    obtain lc' st2 where d: "default_label_conversion lib info lc st1 = (lc', st2)"
      by (cases "default_label_conversion lib info lc st1")
    note f2 = default_label_conversion_fields [OF d]
    show ?thesis
      using assms \<open>get_input lib slf input_data st = Inr input0\<close> c Inr d f1 f2
      by (auto simp: prepare_def split: sum.splits)
  qed
qed

lemma apply_classifier_fields:
  assumes "apply_classifier slf X st = (r, st')"
  shows "sorting_obj st' = sorting_obj st \<and> files st' = files st"
  using assms
  by (auto simp: apply_classifier_def Let_def split: sum.splits)

subsection \<open>Unfolding the examples\<close>

lemmas ex_defs = ex_table_def ex_sorting_def ex_state_def ex_int_def concat_aligned_def ex_library_def
  ex_filesystem_def ex_skio_load_def ex_pipeline_def ex_analyzer_def ex_classifier_def ex_analyzer_qm_def
  ex_info_def ex_table_swapped_def ex_quality_def ex_template_def ex_state_other_units_def ex_classifier_abc_def
  ModelBasedClassification_def
lemmas code_defs = predict_labels_def prepare_def get_input_def check_params_for_classification_def
  check_quality_params_def check_template_params_def default_label_conversion_def sanitize_def
  map_inf_to_nan_def astype_float32_def apply_classifier_def np_max_axis1_def convert_labels_def
  dict_of_items_def set_property_def export_to_phy_def to_csv_def get_annotation_def get_extension_def
  py_getitem_def warn_def isinf_def get_metrics_for_classification_def merged_metrics_def loc_isin_def
  select_mask_def getitem_columns_def column_labels_def get_unit_ids_def model_input_labels_def

lemmas ex_more_defs = ex_pipeline_graded_def ex_classifier_graded_def ex_quality_az_def ex_template_bz_def
  ex_template_ab_def ex_classifier_ba_def

subsection \<open>Label conversion\<close>

text \<open>
  C1. When a label conversion is in effect at the point of prediction (given by the
  caller, or taken from the metadata because the caller gave none) and the model
  predicts a label that is no key of it, \<open>predict_labels\<close> raises the
  \<^verbatim>\<open>ValueError\<close> "Labels in predictions do not match those in label_conversion",
  and the state in which it raises has the sorting object (so both properties
  \<open>label_prediction\<close> and \<open>label_confidence\<close>) and the written files exactly as
  before the call.
\<close>

theorem predict_labels_label_mismatch:
  assumes prep: "prepare lib slf label_conversion input_data pipeline_info st = (Inr (X, Some d), st1)"
    and appl: "apply_classifier slf X st1 = (Inr (predictions, probabilities), st2)"
    and lab: "label \<in> set predictions" "d label = None"
  shows "predict_labels lib fs slf label_conversion input_data export_flag pipeline_info st =
           (Inl (ValueError ''Labels in predictions do not match those in label_conversion''), st2)
         \<and> sorting_obj st2 = sorting_obj st \<and> files st2 = files st"
proof -
  have "\<not> list_all (\<lambda>l. d l \<noteq> None) predictions"
    using lab by (auto simp: list_all_iff)
  then have conv: "convert_labels (Some d) predictions =
      Inl (ValueError ''Labels in predictions do not match those in label_conversion'')"
    by (simp add: convert_labels_def)
  have res: "predict_labels lib fs slf label_conversion input_data export_flag pipeline_info st =
      (Inl (ValueError ''Labels in predictions do not match those in label_conversion''), st2)"
    by (simp add: predict_labels_def prep appl conv)
  from prepare_fields [OF prep] apply_classifier_fields [OF appl] res
  show ?thesis by simp
qed

theorem predict_labels_label_mismatch_witness:
  "predict_labels (ex_library None None) ex_filesystem (ex_classifier 3) None
      (Some (DataFrame ex_table)) True ex_info ex_state =
     (Inl (ValueError ''Labels in predictions do not match those in label_conversion''),
      ex_state\<lparr>model_calls :=
        [(Predict, ex_table\<lparr>columns := [(''a'', [Finite 1, NaN, Finite 3]), (''b'', [Finite 0, Finite 5, NaN])]\<rparr>),
         (PredictProba, ex_table\<lparr>columns := [(''a'', [Finite 1, NaN, Finite 3]), (''b'', [Finite 0, Finite 5, NaN])]\<rparr>)]\<rparr>)
   \<and> predict_labels (ex_library None None) ex_filesystem (ex_classifier 3)
        (Some [0 \<mapsto> PStr ''noise'', 1 \<mapsto> PStr ''good'']) (Some (DataFrame ex_table)) False PNone ex_state =
     (Inl (ValueError ''Labels in predictions do not match those in label_conversion''),
      ex_state\<lparr>model_calls :=
        [(Predict, ex_table\<lparr>columns := [(''a'', [Finite 1, NaN, Finite 3]), (''b'', [Finite 0, Finite 5, NaN])]\<rparr>),
         (PredictProba, ex_table\<lparr>columns := [(''a'', [Finite 1, NaN, Finite 3]), (''b'', [Finite 0, Finite 5, NaN])]\<rparr>)]\<rparr>)
   \<and> properties (sorting_obj ex_state) ''label_prediction'' = None
   \<and> properties (sorting_obj ex_state) ''label_confidence'' = None"
proof -
  let ?X = "ex_table\<lparr>columns := [(''a'', [Finite 1, NaN, Finite 3]), (''b'', [Finite 0, Finite 5, NaN])]\<rparr>"
  let ?d = "[(0::int) \<mapsto> PStr ''noise'', 1 \<mapsto> PStr ''good'']"
  let ?st2 = "ex_state\<lparr>model_calls := [(Predict, ?X), (PredictProba, ?X)]\<rparr>"
  have p1: "prepare (ex_library None None) (ex_classifier 3) None (Some (DataFrame ex_table)) ex_info ex_state
      = (Inr (?X, Some ?d), ex_state)"
    by (simp add: ex_defs prepare_def get_input_def check_params_for_classification_def get_extension_def
        default_label_conversion_def py_getitem_def sanitize_def map_inf_to_nan_def astype_float32_def isinf_def)
  have p2: "prepare (ex_library None None) (ex_classifier 3) (Some ?d) (Some (DataFrame ex_table)) PNone ex_state
      = (Inr (?X, Some ?d), ex_state)"
    by (simp add: ex_defs prepare_def get_input_def 
        default_label_conversion_def sanitize_def map_inf_to_nan_def astype_float32_def isinf_def)
  have a: "apply_classifier (ex_classifier 3) ?X ex_state = (Inr ([2, 0, 1], [3 / 4, 3 / 4, 3 / 4]), ?st2)"
    by (simp add: ex_defs apply_classifier_def np_max_axis1_def)
  have m: "(2::int) \<in> set [2, 0, 1]" "?d 2 = None"
    by simp_all
  from predict_labels_label_mismatch [OF p1 a m, of ex_filesystem True]
    predict_labels_label_mismatch [OF p2 a m, of ex_filesystem False]
  show ?thesis
    by (simp add: ex_state_def ex_sorting_def)
qed

subsection \<open>Metric assembly\<close>

lemma select_mask_map: "select_mask (map P xs) xs = filter P xs"
  by (induction xs) (simp_all add: select_mask_def)

lemma index_loc_isin: "index (loc_isin t ids) = filter (\<lambda>u. u \<in> set ids) (index t)"
  by (simp add: loc_isin_def Let_def select_mask_map)

lemma column_labels_loc_isin: "column_labels (loc_isin t ids) = column_labels t"
  by (simp add: loc_isin_def Let_def column_labels_def comp_def)

text \<open>
  C7. When the merged metrics table, restricted to the rows whose unit identifier is
  a current unit of the sorting, has no row, metric assembly raises the
  \<^verbatim>\<open>ValueError\<close> "No units present in sorting data".
\<close>

theorem no_units_present:
  assumes "merged_metrics lib (sorting_analyzer slf) = Inr merged"
    and "filter (\<lambda>u. u \<in> set (get_unit_ids (sorting_obj st))) (index merged) = []"
  shows "get_metrics_for_classification lib slf st =
           Inl (ValueError ''No units present in sorting data'')"
  using assms
  by (simp add: get_metrics_for_classification_def Let_def index_loc_isin)

theorem no_units_present_witness:
  "merged_metrics (ex_library (Some ex_quality) (Some ex_template)) (sorting_analyzer (ex_classifier 2)) =
     Inr \<lparr>index = [2, 3, 4],
          columns = [(''a'', [Finite 1, PosInf, Finite 3]), (''b'', [Finite 0, Finite 5, NegInf])]\<rparr>
   \<and> get_unit_ids (sorting_obj ex_state_other_units) = [7, 8]
   \<and> get_metrics_for_classification (ex_library (Some ex_quality) (Some ex_template))
        (ex_classifier 2) ex_state_other_units =
      Inl (ValueError ''No units present in sorting data'')"
proof -
  have m: "merged_metrics (ex_library (Some ex_quality) (Some ex_template)) (sorting_analyzer (ex_classifier 2)) =
     Inr \<lparr>index = [2, 3, 4],
          columns = [(''a'', [Finite 1, PosInf, Finite 3]), (''b'', [Finite 0, Finite 5, NegInf])]\<rparr>"
    by (simp add: merged_metrics_def ex_defs)
  have u: "get_unit_ids (sorting_obj ex_state_other_units) = [7, 8]"
    by (simp add: get_unit_ids_def ex_defs)
  have f: "filter (\<lambda>u. u \<in> set (get_unit_ids (sorting_obj ex_state_other_units)))
             (index \<lparr>index = [2, 3, 4],
          columns = [(''a'', [Finite 1, PosInf, Finite 3]), (''b'', [Finite 0, Finite 5, NegInf])]\<rparr>) = []"
    by (simp add: u)
  from no_units_present [OF m f] m u show ?thesis by simp
qed

text \<open>
  C6, as stated, fails: for a classifier that requires \<open>a\<close>, \<open>b\<close>, \<open>c\<close> and
  a merged table with the columns \<open>a\<close>, \<open>b\<close> only, assembly on a sorting that has
  none of the table's units raises "No units present in sorting data" and names no
  missing metric: the test for units comes first.
\<close>

theorem missing_metrics_counterexample:
  "merged_metrics (ex_library (Some ex_quality) (Some ex_template)) (sorting_analyzer ex_classifier_abc) =
     Inr \<lparr>index = [2, 3, 4],
          columns = [(''a'', [Finite 1, PosInf, Finite 3]), (''b'', [Finite 0, Finite 5, NegInf])]\<rparr>
   \<and> required_metrics ex_classifier_abc = [''a'', ''b'', ''c'']
   \<and> get_metrics_for_classification (ex_library (Some ex_quality) (Some ex_template))
        ex_classifier_abc ex_state_other_units =
      Inl (ValueError ''No units present in sorting data'')"
  by (simp add: ex_defs get_metrics_for_classification_def merged_metrics_def loc_isin_def
      select_mask_def get_unit_ids_def)

text \<open>
  C6, amended. When at least one row of the merged table belongs to a current unit
  and the required feature columns are not all columns of the merged table, metric
  assembly raises the \<^verbatim>\<open>ValueError\<close> "Input data does not contain all required
  metrics for classification" whose second argument names exactly the required
  columns that are absent.
\<close>

theorem missing_metrics_named:
  assumes "merged_metrics lib (sorting_analyzer slf) = Inr merged"
    and "filter (\<lambda>u. u \<in> set (get_unit_ids (sorting_obj st))) (index merged) \<noteq> []"
    and "\<not> set (required_metrics slf) \<subseteq> set (column_labels merged)"
  shows "get_metrics_for_classification lib slf st =
           Inl (MissingMetrics ''Input data does not contain all required metrics for classification''
                 (set (required_metrics slf) - set (column_labels merged)))"
proof -
  have "\<not> list_all (\<lambda>r. r \<in> set (column_labels merged)) (required_metrics slf)"
    using assms(3) by (auto simp: list_all_iff)
  then show ?thesis
    using assms(1,2)
    by (simp add: get_metrics_for_classification_def Let_def index_loc_isin column_labels_loc_isin)
qed

theorem missing_metrics_named_witness:
  "merged_metrics (ex_library (Some ex_quality) (Some ex_template)) (sorting_analyzer ex_classifier_abc) =
     Inr \<lparr>index = [2, 3, 4],
          columns = [(''a'', [Finite 1, PosInf, Finite 3]), (''b'', [Finite 0, Finite 5, NegInf])]\<rparr>
   \<and> required_metrics ex_classifier_abc = [''a'', ''b'', ''c'']
   \<and> get_unit_ids (sorting_obj ex_state) = [2, 3, 4]
   \<and> get_metrics_for_classification (ex_library (Some ex_quality) (Some ex_template))
        ex_classifier_abc ex_state =
      Inl (MissingMetrics ''Input data does not contain all required metrics for classification'' {''c''})"
proof -
  let ?m = "\<lparr>index = [2, 3, 4],
          columns = [(''a'', [Finite 1, PosInf, Finite 3]), (''b'', [Finite 0, Finite 5, NegInf])]\<rparr>"
  have m: "merged_metrics (ex_library (Some ex_quality) (Some ex_template)) (sorting_analyzer ex_classifier_abc) =
     Inr ?m"
    by (simp add: merged_metrics_def ex_defs)
  have r: "required_metrics ex_classifier_abc = [''a'', ''b'', ''c'']"
    by (simp add: ex_defs)
  have u: "get_unit_ids (sorting_obj ex_state) = [2, 3, 4]"
    by (simp add: get_unit_ids_def ex_defs)
  have f: "filter (\<lambda>u. u \<in> set (get_unit_ids (sorting_obj ex_state))) (index ?m) \<noteq> []"
    by (simp add: u)
  have n: "\<not> set (required_metrics ex_classifier_abc) \<subseteq> set (column_labels ?m)"
    by (simp add: r column_labels_def)
  have d: "set (required_metrics ex_classifier_abc) - set (column_labels ?m) = {''c''}"
    by (auto simp add: r column_labels_def)
  from missing_metrics_named [OF m f n] m r u d show ?thesis by simp
qed

subsection \<open>Assigning properties and exporting\<close>

lemma set_property_fields:
  "annotations (sorting_obj (set_property k v st)) = annotations (sorting_obj st)"
  "unit_ids (sorting_obj (set_property k v st)) = unit_ids (sorting_obj st)"
  "properties (sorting_obj (set_property k v st)) = (properties (sorting_obj st))(k \<mapsto> v)"
  "files (set_property k v st) = files st"
  "model_calls (set_property k v st) = model_calls st"
  "warnings (set_property k v st) = warnings st"
  by (simp_all add: set_property_def)

lemma export_to_phy_model_calls:
  "export_to_phy fs cu st = (r, st') \<Longrightarrow> model_calls st' = model_calls st"
  by (auto simp: export_to_phy_def split: option.splits if_splits)

lemma export_to_phy_sorting_obj:
  "export_to_phy fs cu st = (r, st') \<Longrightarrow> sorting_obj st' = sorting_obj st"
  by (auto simp: export_to_phy_def split: option.splits if_splits)

lemma dict_setitem_fresh: "k \<notin> fst ` set d \<Longrightarrow> dict_setitem d k v = d @ [(k, v)]"
  by (induction d) auto

lemma foldl_dict_setitem_distinct:
  "distinct (map fst (d @ kvs)) \<Longrightarrow>
     foldl (\<lambda>d kv. dict_setitem d (fst kv) (snd kv)) d kvs = d @ kvs"
proof (induction kvs arbitrary: d)
  case Nil
  then show ?case by simp
next
  case (Cons kv kvs)
  have fresh: "fst kv \<notin> fst ` set d"
    using Cons.prems by auto
  have "distinct (map fst ((d @ [kv]) @ kvs))"
    using Cons.prems by simp
  from Cons.IH [OF this] show ?case
    by (simp add: dict_setitem_fresh [OF fresh])
qed

lemma dict_of_items_distinct: "distinct (map fst kvs) \<Longrightarrow> dict_of_items kvs = kvs"
  using foldl_dict_setitem_distinct [of "[]" kvs] by (simp add: dict_of_items_def)

lemma dict_of_items_zip:
  "distinct ks \<Longrightarrow> length vs = length ks \<Longrightarrow> dict_of_items (zip ks vs) = zip ks vs"
  by (rule dict_of_items_distinct) simp

lemma fold_max_Max:
  assumes "r \<noteq> []"
  shows "fold max (tl r) (hd r) = Max (set r)"
proof (cases r)
  case Nil
  then show ?thesis using assms by simp
next
  case (Cons x xs)
  have "Max (set (x # xs)) = fold max xs x"
    by (rule Max.set_eq_fold)
  then show ?thesis using Cons by simp
qed

lemma np_max_axis1_Inr:
  "np_max_axis1 rows = Inr ms \<Longrightarrow> list_all (\<lambda>r. r \<noteq> []) rows \<and> ms = map (\<lambda>r. Max (set r)) rows"
  by (auto simp: np_max_axis1_def list_all_iff fold_max_Max split: if_splits)

lemma apply_classifier_Inr:
  assumes "apply_classifier slf X st = (Inr (predictions, probabilities), st')"
  shows "\<exists>proba. predict (pipeline slf) X = Inr predictions \<and> predict_proba (pipeline slf) X = Inr proba
           \<and> list_all (\<lambda>r. r \<noteq> []) proba \<and> probabilities = map (\<lambda>r. Max (set r)) proba
           \<and> model_calls st' = model_calls st @ [(Predict, X), (PredictProba, X)]"
  using assms
  by (auto simp: apply_classifier_def Let_def split: sum.splits dest!: np_max_axis1_Inr)

lemma prepare_Inr:
  assumes "prepare lib slf lc input_data info st = (Inr (X, lc'), st')"
  shows "\<exists>input0. get_input lib slf input_data st = Inr input0 \<and> sanitize lib input0 = Inr X"
  using assms
  by (auto simp: prepare_def split: sum.splits prod.splits)

lemma convert_labels_length: "convert_labels lc predictions = Inr labels \<Longrightarrow> length labels = length predictions"
  by (auto simp: convert_labels_def split: option.splits if_splits)

lemma convert_labels_Inr:
  assumes "convert_labels lc predictions = Inr labels"
  shows "labels = (case lc of None \<Rightarrow> map PInt predictions
                   | Some d \<Rightarrow> map (\<lambda>label. the (d label)) predictions)
         \<and> (case lc of None \<Rightarrow> True | Some d \<Rightarrow> set predictions \<subseteq> dom d)"
  using assms
  by (auto simp: convert_labels_def list_all_iff split: option.splits if_splits)

text \<open>
  C9. When the sorting has no \<open>phy_folder\<close> annotation, or the annotation names a
  path that is not an existing directory, the export raises the \<^verbatim>\<open>ValueError\<close>
  "Phy folder not found in sorting annotations, or is not a directory" and leaves the
  state, hence the files, as it was. Otherwise it writes the file
  \<open>cluster_prediction.tsv\<close> in that directory: tab-separated, its header
  \<open>cluster_id\<close>, \<open>prediction\<close>, \<open>probability\<close>, and one row per classified
  unit.
\<close>

theorem export_to_phy_contract:
  "(annotations (sorting_obj st) ''phy_folder'' = None
      \<or> (\<exists>p. annotations (sorting_obj st) ''phy_folder'' = Some p \<and> \<not> is_dir fs p)
    \<longrightarrow> export_to_phy fs classified_units st =
          (Inl (ValueError ''Phy folder not found in sorting annotations, or is not a directory''), st))
   \<and> (\<forall>p. annotations (sorting_obj st) ''phy_folder'' = Some p \<and> is_dir fs p
    \<longrightarrow> export_to_phy fs classified_units st =
          (Inr (),
           st\<lparr>files := (files st)(p @ ''/cluster_prediction.tsv'' \<mapsto>
                 \<lparr>separator = [CHR 0x09],
                  header = [''cluster_id'', ''prediction'', ''probability''],
                  body = classified_units\<rparr>)\<rparr>))"
  by (auto simp: export_to_phy_def get_annotation_def to_csv_def)

theorem export_to_phy_contract_witness:
  "export_to_phy ex_filesystem [(2, PStr ''noise'', 3 / 4)] ex_state =
     (Inr (),
      ex_state\<lparr>files := [''/data/phy/cluster_prediction.tsv'' \<mapsto>
         \<lparr>separator = [CHR 0x09],
          header = [''cluster_id'', ''prediction'', ''probability''],
          body = [(2, PStr ''noise'', 3 / 4)]\<rparr>]\<rparr>)
   \<and> export_to_phy ex_filesystem [(2, PStr ''noise'', 3 / 4)]
        (ex_state\<lparr>sorting_obj := ex_sorting\<lparr>annotations := Map.empty\<rparr>\<rparr>) =
     (Inl (ValueError ''Phy folder not found in sorting annotations, or is not a directory''),
      ex_state\<lparr>sorting_obj := ex_sorting\<lparr>annotations := Map.empty\<rparr>\<rparr>)
   \<and> export_to_phy ex_filesystem [(2, PStr ''noise'', 3 / 4)]
        (ex_state\<lparr>sorting_obj := ex_sorting\<lparr>annotations := [''phy_folder'' \<mapsto> ''/nowhere'']\<rparr>\<rparr>) =
     (Inl (ValueError ''Phy folder not found in sorting annotations, or is not a directory''),
      ex_state\<lparr>sorting_obj := ex_sorting\<lparr>annotations := [''phy_folder'' \<mapsto> ''/nowhere'']\<rparr>\<rparr>)"
proof -
  have a: "annotations (sorting_obj ex_state) ''phy_folder'' = Some ''/data/phy'' \<and> is_dir ex_filesystem ''/data/phy''"
    by (simp add: ex_defs)
  have b: "annotations (sorting_obj (ex_state\<lparr>sorting_obj := ex_sorting\<lparr>annotations := Map.empty\<rparr>\<rparr>)) ''phy_folder'' = None"
    by simp
  have c: "annotations (sorting_obj (ex_state\<lparr>sorting_obj := ex_sorting\<lparr>annotations := [''phy_folder'' \<mapsto> ''/nowhere'']\<rparr>\<rparr>)) ''phy_folder'' = Some ''/nowhere''
        \<and> \<not> is_dir ex_filesystem ''/nowhere''"
    by (simp add: ex_defs)
  from a b c
    export_to_phy_contract [of ex_state ex_filesystem "[(2, PStr ''noise'', 3 / 4)]"]
    export_to_phy_contract [of "ex_state\<lparr>sorting_obj := ex_sorting\<lparr>annotations := Map.empty\<rparr>\<rparr>" ex_filesystem "[(2, PStr ''noise'', 3 / 4)]"]
    export_to_phy_contract [of "ex_state\<lparr>sorting_obj := ex_sorting\<lparr>annotations := [''phy_folder'' \<mapsto> ''/nowhere'']\<rparr>\<rparr>" ex_filesystem "[(2, PStr ''noise'', 3 / 4)]"]
  show ?thesis
    by (simp add: ex_state_def)
qed

text \<open>
  C10. When \<open>predict_labels\<close> is called with the export requested, reaches the
  property assignments, and the \<open>phy_folder\<close> annotation is missing or names no
  directory, the call raises the export's \<^verbatim>\<open>ValueError\<close> and returns no result,
  yet in the state it leaves behind the properties \<open>label_prediction\<close> and
  \<open>label_confidence\<close> of the sorting hold the new arrays.
\<close>

theorem export_failure_keeps_properties:
  assumes prep: "prepare lib slf label_conversion input_data pipeline_info st = (Inr (X, lc), st1)"
    and appl: "apply_classifier slf X st1 = (Inr (predictions, probabilities), st2)"
    and conv: "convert_labels lc predictions = Inr labels"
    and bad: "annotations (sorting_obj st) ''phy_folder'' = None
              \<or> (\<exists>p. annotations (sorting_obj st) ''phy_folder'' = Some p \<and> \<not> is_dir fs p)"
  shows "fst (predict_labels lib fs slf label_conversion input_data True pipeline_info st) =
           Inl (ValueError ''Phy folder not found in sorting annotations, or is not a directory'')
         \<and> properties (sorting_obj (snd (predict_labels lib fs slf label_conversion input_data True pipeline_info st)))
             ''label_prediction'' = Some (LabelArray labels)
         \<and> properties (sorting_obj (snd (predict_labels lib fs slf label_conversion input_data True pipeline_info st)))
             ''label_confidence'' = Some (FloatArray probabilities)"
proof -
  let ?st5 = "set_property ''label_confidence'' (FloatArray probabilities)
                (set_property ''label_prediction'' (LabelArray labels) st2)"
  have so: "sorting_obj st2 = sorting_obj st"
    using prepare_fields [OF prep] apply_classifier_fields [OF appl] by simp
  have ann: "annotations (sorting_obj ?st5) = annotations (sorting_obj st)"
    by (simp add: set_property_fields so)
  have ex: "export_to_phy fs cu ?st5 =
      (Inl (ValueError ''Phy folder not found in sorting annotations, or is not a directory''), ?st5)" for cu
    using bad by (auto simp: export_to_phy_def get_annotation_def ann)
  have res: "predict_labels lib fs slf label_conversion input_data True pipeline_info st =
      (Inl (ValueError ''Phy folder not found in sorting annotations, or is not a directory''), ?st5)"
    by (simp add: predict_labels_def prep appl conv Let_def ex)
  have p1: "properties (sorting_obj ?st5) ''label_prediction'' = Some (LabelArray labels)"
    by (simp add: set_property_fields)
  have p2: "properties (sorting_obj ?st5) ''label_confidence'' = Some (FloatArray probabilities)"
    by (simp add: set_property_fields)
  from res p1 p2 show ?thesis by simp
qed

theorem export_failure_keeps_properties_witness:
  "properties (sorting_obj (ex_state\<lparr>sorting_obj := ex_sorting\<lparr>annotations := [''phy_folder'' \<mapsto> ''/nowhere'']\<rparr>\<rparr>))
      ''label_prediction'' = None
   \<and> fst (predict_labels (ex_library None None) ex_filesystem (ex_classifier 2) None
        (Some (DataFrame ex_table)) True PNone
        (ex_state\<lparr>sorting_obj := ex_sorting\<lparr>annotations := [''phy_folder'' \<mapsto> ''/nowhere'']\<rparr>\<rparr>)) =
      Inl (ValueError ''Phy folder not found in sorting annotations, or is not a directory'')
   \<and> properties (sorting_obj (snd (predict_labels (ex_library None None) ex_filesystem (ex_classifier 2) None
        (Some (DataFrame ex_table)) True PNone
        (ex_state\<lparr>sorting_obj := ex_sorting\<lparr>annotations := [''phy_folder'' \<mapsto> ''/nowhere'']\<rparr>\<rparr>))))
        ''label_prediction'' = Some (LabelArray [PInt 0, PInt 1, PInt 0])
   \<and> properties (sorting_obj (snd (predict_labels (ex_library None None) ex_filesystem (ex_classifier 2) None
        (Some (DataFrame ex_table)) True PNone
        (ex_state\<lparr>sorting_obj := ex_sorting\<lparr>annotations := [''phy_folder'' \<mapsto> ''/nowhere'']\<rparr>\<rparr>))))
        ''label_confidence'' = Some (FloatArray [3 / 4, 3 / 4, 3 / 4])"
proof -
  let ?X = "ex_table\<lparr>columns := [(''a'', [Finite 1, NaN, Finite 3]), (''b'', [Finite 0, Finite 5, NaN])]\<rparr>"
  let ?st = "ex_state\<lparr>sorting_obj := ex_sorting\<lparr>annotations := [''phy_folder'' \<mapsto> ''/nowhere'']\<rparr>\<rparr>"
  have p: "prepare (ex_library None None) (ex_classifier 2) None (Some (DataFrame ex_table)) PNone ?st
      = (Inr (?X, None), ?st)"
    by (simp add: ex_defs prepare_def get_input_def
        default_label_conversion_def sanitize_def map_inf_to_nan_def astype_float32_def isinf_def)
  have a: "apply_classifier (ex_classifier 2) ?X ?st =
      (Inr ([0, 1, 0], [3 / 4, 3 / 4, 3 / 4]), ?st\<lparr>model_calls := [(Predict, ?X), (PredictProba, ?X)]\<rparr>)"
    by (simp add: ex_defs apply_classifier_def np_max_axis1_def)
  have c: "convert_labels None [0, 1, 0] = Inr [PInt 0, PInt 1, PInt 0]"
    by (simp add: convert_labels_def)
  have b: "annotations (sorting_obj ?st) ''phy_folder'' = None
           \<or> (\<exists>p. annotations (sorting_obj ?st) ''phy_folder'' = Some p \<and> \<not> is_dir ex_filesystem p)"
    by (simp add: ex_defs)
  have n: "properties (sorting_obj ?st) ''label_prediction'' = None"
    by (simp add: ex_defs)
  from export_failure_keeps_properties [OF p a c b] n show ?thesis
    by simp
qed

text \<open>
  C4. With a label conversion in effect whose keys cover the raw predictions, units
  that are distinct and one prediction and one confidence per row, the returned
  dictionary pairs the units of the input table's index, in order, with the converted
  labels, and the property \<open>label_prediction\<close> of the sorting holds the same
  converted sequence in the same order. For the conversion 0 to noise, 1 to good and
  the raw predictions 0, 1, 0 the labels are noise, good, noise.
\<close>

theorem label_conversion_round_trip:
  assumes prep: "prepare lib slf label_conversion input_data pipeline_info st = (Inr (X, Some d), st1)"
    and appl: "apply_classifier slf X st1 = (Inr (predictions, probabilities), st2)"
    and keys: "set predictions \<subseteq> dom d"
    and rows: "distinct (index X)" "length predictions = length (index X)"
              "length probabilities = length (index X)"
    and exp: "export_flag \<longrightarrow>
                (\<exists>p. annotations (sorting_obj st) ''phy_folder'' = Some p \<and> is_dir fs p)"
  shows "fst (predict_labels lib fs slf label_conversion input_data export_flag pipeline_info st) =
           Inr (zip (index X) (zip (map (\<lambda>label. the (d label)) predictions) probabilities))
         \<and> properties (sorting_obj (snd (predict_labels lib fs slf label_conversion input_data
               export_flag pipeline_info st))) ''label_prediction'' =
             Some (LabelArray (map (\<lambda>label. the (d label)) predictions))"
proof -
  let ?labels = "map (\<lambda>label. the (d label)) predictions"
  let ?cu = "zip (index X) (zip ?labels probabilities)"
  let ?st5 = "set_property ''label_confidence'' (FloatArray probabilities)
                (set_property ''label_prediction'' (LabelArray ?labels) st2)"
  have "list_all (\<lambda>l. d l \<noteq> None) predictions"
    using keys by (auto simp: list_all_iff)
  then have conv: "convert_labels (Some d) predictions = Inr ?labels"
    by (simp add: convert_labels_def)
  have dict: "dict_of_items ?cu = ?cu"
    using rows by (intro dict_of_items_zip) simp_all
  have so: "sorting_obj st2 = sorting_obj st"
    using prepare_fields [OF prep] apply_classifier_fields [OF appl] by simp
  have p5: "properties (sorting_obj ?st5) ''label_prediction'' = Some (LabelArray ?labels)"
    by (simp add: set_property_fields)
  show ?thesis
  proof (cases export_flag)
    case False
    then have "predict_labels lib fs slf label_conversion input_data export_flag pipeline_info st =
        (Inr ?cu, ?st5)"
      by (simp add: predict_labels_def prep appl conv Let_def dict)
    then show ?thesis using p5 by simp
  next
    case True
    then obtain p where p: "annotations (sorting_obj st) ''phy_folder'' = Some p" "is_dir fs p"
      using exp by blast
    have ann: "annotations (sorting_obj ?st5) = annotations (sorting_obj st)"
      by (simp add: set_property_fields so)
    obtain st6 where ex: "export_to_phy fs ?cu ?st5 = (Inr (), st6)"
      using p by (simp add: export_to_phy_def get_annotation_def ann)
    have so6: "sorting_obj st6 = sorting_obj ?st5"
      by (rule export_to_phy_sorting_obj [OF ex])
    have "predict_labels lib fs slf label_conversion input_data export_flag pipeline_info st =
        (Inr ?cu, st6)"
      using True by (simp add: predict_labels_def prep appl conv Let_def dict ex)
    then show ?thesis using p5 so6 by simp
  qed
qed

theorem label_conversion_round_trip_witness:
  "fst (predict_labels (ex_library None None) ex_filesystem (ex_classifier 2)
          (Some [0 \<mapsto> PStr ''noise'', 1 \<mapsto> PStr ''good'']) (Some (DataFrame ex_table)) False PNone ex_state) =
     Inr [(2, PStr ''noise'', 3 / 4), (3, PStr ''good'', 3 / 4), (4, PStr ''noise'', 3 / 4)]
   \<and> properties (sorting_obj (snd (predict_labels (ex_library None None) ex_filesystem (ex_classifier 2)
          (Some [0 \<mapsto> PStr ''noise'', 1 \<mapsto> PStr ''good'']) (Some (DataFrame ex_table)) False PNone ex_state)))
        ''label_prediction'' = Some (LabelArray [PStr ''noise'', PStr ''good'', PStr ''noise''])
   \<and> index ex_table = [2, 3, 4]"
proof -
  let ?X = "ex_table\<lparr>columns := [(''a'', [Finite 1, NaN, Finite 3]), (''b'', [Finite 0, Finite 5, NaN])]\<rparr>"
  let ?d = "[(0::int) \<mapsto> PStr ''noise'', 1 \<mapsto> PStr ''good'']"
  have p: "prepare (ex_library None None) (ex_classifier 2) (Some ?d) (Some (DataFrame ex_table)) PNone ex_state
      = (Inr (?X, Some ?d), ex_state)"
    by (simp add: ex_defs prepare_def get_input_def
        default_label_conversion_def sanitize_def map_inf_to_nan_def astype_float32_def isinf_def)
  have a: "apply_classifier (ex_classifier 2) ?X ex_state =
      (Inr ([0, 1, 0], [3 / 4, 3 / 4, 3 / 4]), ex_state\<lparr>model_calls := [(Predict, ?X), (PredictProba, ?X)]\<rparr>)"
    by (simp add: ex_defs apply_classifier_def np_max_axis1_def)
  have k: "set [0, 1, 0] \<subseteq> dom ?d"
    by simp
  have r: "distinct (index ?X)" "length [0::int, 1, 0] = length (index ?X)"
    "length [3 / 4, 3 / 4, 3 / 4 :: real] = length (index ?X)"
    by (simp_all add: ex_defs)
  have e: "False \<longrightarrow> (\<exists>p. annotations (sorting_obj ex_state) ''phy_folder'' = Some p \<and> is_dir ex_filesystem p)"
    by simp
  from label_conversion_round_trip [OF p a k r e] show ?thesis
    by (simp add: ex_table_def)
qed

text \<open>
  C5. Whenever \<open>predict_labels\<close> returns a result, one sanitized table \<open>X\<close> was
  handed to \<^verbatim>\<open>predict\<close> and then to \<^verbatim>\<open>predict_proba\<close>. The labels of the
  result are the model's predictions, each replaced by its entry in the label
  conversion in effect when there is one (all predictions are then keys of it), and
  kept as predicted otherwise. When the units of \<open>X\<close> are distinct and the model
  gives one label and one row of probabilities per unit, the result is the index of
  \<open>X\<close> paired, in order, with these labels and with the maximum of each row of
  probabilities: every unit maps to its label and to the maximum of its own row.
\<close>

theorem classified_units_confidence:
  assumes res: "predict_labels lib fs slf label_conversion input_data export_flag pipeline_info st =
                  (Inr classified_units, st')"
  shows "\<exists>input0 X lc st1 predictions proba labels.
           get_input lib slf input_data st = Inr input0 \<and> sanitize lib input0 = Inr X
         \<and> prepare lib slf label_conversion input_data pipeline_info st = (Inr (X, lc), st1)
         \<and> model_calls st' = model_calls st @ [(Predict, X), (PredictProba, X)]
         \<and> predict (pipeline slf) X = Inr predictions
         \<and> predict_proba (pipeline slf) X = Inr proba
         \<and> labels = (case lc of None \<Rightarrow> map PInt predictions
                      | Some d \<Rightarrow> map (\<lambda>label. the (d label)) predictions)
         \<and> (case lc of None \<Rightarrow> True | Some d \<Rightarrow> set predictions \<subseteq> dom d)
         \<and> (distinct (index X) \<and> length predictions = length (index X) \<and> length proba = length (index X)
              \<longrightarrow> classified_units = zip (index X) (zip labels (map (\<lambda>row. Max (set row)) proba))
                \<and> (\<forall>i < length (index X).
                      map_of classified_units (index X ! i) = Some (labels ! i, Max (set (proba ! i)))))"
proof -
  obtain r1 st2 where prep: "prepare lib slf label_conversion input_data pipeline_info st = (r1, st2)"
    by (cases "prepare lib slf label_conversion input_data pipeline_info st")
  obtain X lc where r1: "r1 = Inr (X, lc)"
    using res prep by (cases r1) (auto simp: predict_labels_def)
  note prep' = prep [unfolded r1]
  obtain r2 st3 where appl: "apply_classifier slf X st2 = (r2, st3)"
    by (cases "apply_classifier slf X st2")
  obtain predictions probabilities where r2: "r2 = Inr (predictions, probabilities)"
    using res prep' appl by (cases r2) (auto simp: predict_labels_def)
  note appl' = appl [unfolded r2]
  obtain labels where conv: "convert_labels lc predictions = Inr labels"
    using res prep' appl' by (cases "convert_labels lc predictions") (auto simp: predict_labels_def)
  let ?cu = "dict_of_items (zip (index X) (zip labels probabilities))"
  let ?st5 = "set_property ''label_confidence'' (FloatArray probabilities)
                (set_property ''label_prediction'' (LabelArray labels) st3)"
  have cu: "classified_units = ?cu"
    using res prep' appl' conv
    by (auto simp: predict_labels_def Let_def split: if_splits sum.splits prod.splits)
  have calls5: "model_calls st' = model_calls ?st5"
    using res prep' appl' conv
    by (auto simp: predict_labels_def Let_def split: if_splits sum.splits prod.splits
        dest: export_to_phy_model_calls)
  obtain input0 where inp: "get_input lib slf input_data st = Inr input0" "sanitize lib input0 = Inr X"
    using prepare_Inr [OF prep'] by blast
  obtain proba where pr: "predict (pipeline slf) X = Inr predictions"
      "predict_proba (pipeline slf) X = Inr proba"
      "probabilities = map (\<lambda>r. Max (set r)) proba"
      "model_calls st3 = model_calls st2 @ [(Predict, X), (PredictProba, X)]"
    using apply_classifier_Inr [OF appl'] by blast
  have calls: "model_calls st' = model_calls st @ [(Predict, X), (PredictProba, X)]"
    using calls5 pr(4) prepare_fields [OF prep'] by (simp add: set_property_fields)
  have len: "length labels = length predictions"
    by (rule convert_labels_length [OF conv])
  note lab = convert_labels_Inr [OF conv]
  have main: "classified_units = zip (index X) (zip labels (map (\<lambda>row. Max (set row)) proba))
      \<and> (\<forall>i < length (index X).
            map_of classified_units (index X ! i) = Some (labels ! i, Max (set (proba ! i))))"
    if d: "distinct (index X)" and l1: "length predictions = length (index X)"
      and l2: "length proba = length (index X)"
  proof -
    have eq: "classified_units = zip (index X) (zip labels (map (\<lambda>row. Max (set row)) proba))"
      unfolding cu pr(3) using d l1 l2 len by (intro dict_of_items_zip) simp_all
    have "map_of classified_units (index X ! i) = Some (labels ! i, Max (set (proba ! i)))"
      if i: "i < length (index X)" for i
    proof -
      have "map_of (zip (index X) (zip labels (map (\<lambda>row. Max (set row)) proba))) (index X ! i)
          = Some (zip labels (map (\<lambda>row. Max (set row)) proba) ! i)"
        using d i l1 l2 len by (intro map_of_zip_nth) simp_all
      then show ?thesis
        using i l1 l2 len by (simp add: eq)
    qed
    with eq show ?thesis by blast
  qed
  from inp prep' calls pr(1,2) lab main show ?thesis by blast
qed

theorem classified_units_confidence_witness:
  "predict_labels (ex_library None None) ex_filesystem (ex_classifier_graded 2)
      (Some [0 \<mapsto> PStr ''noise'', 1 \<mapsto> PStr ''good'']) (Some (DataFrame ex_table)) False PNone ex_state =
     (Inr [(2, PStr ''noise'', 1 / 2), (3, PStr ''good'', 2 / 3), (4, PStr ''noise'', 3 / 4)],
      ex_state
        \<lparr>sorting_obj := ex_sorting\<lparr>properties :=
           [''label_prediction'' \<mapsto> LabelArray [PStr ''noise'', PStr ''good'', PStr ''noise''],
            ''label_confidence'' \<mapsto> FloatArray [1 / 2, 2 / 3, 3 / 4]]\<rparr>,
         model_calls :=
           [(Predict, ex_table\<lparr>columns := [(''a'', [Finite 1, NaN, Finite 3]), (''b'', [Finite 0, Finite 5, NaN])]\<rparr>),
            (PredictProba, ex_table\<lparr>columns := [(''a'', [Finite 1, NaN, Finite 3]), (''b'', [Finite 0, Finite 5, NaN])]\<rparr>)]\<rparr>)
   \<and> (\<exists>X predictions proba.
         sanitize (ex_library None None) ex_table = Inr X
       \<and> predict (pipeline (ex_classifier_graded 2)) X = Inr predictions
       \<and> predict_proba (pipeline (ex_classifier_graded 2)) X = Inr proba
       \<and> predictions = [0, 1, 0]
       \<and> proba = [[1 / 2, 1 / 2], [1 / 3, 2 / 3], [1 / 4, 3 / 4]]
       \<and> [(2, PStr ''noise'', 1 / 2), (3, PStr ''good'', 2 / 3), (4, PStr ''noise'', 3 / 4)] =
           zip (index X)
             (zip (map (\<lambda>label. the ([0 \<mapsto> PStr ''noise'', 1 \<mapsto> PStr ''good''] label)) predictions)
                (map (\<lambda>row. Max (set row)) proba)))"
proof -
  let ?d = "[(0::int) \<mapsto> PStr ''noise'', 1 \<mapsto> PStr ''good'']"
  let ?lib = "ex_library None None"
  let ?X = "ex_table\<lparr>columns := [(''a'', [Finite 1, NaN, Finite 3]), (''b'', [Finite 0, Finite 5, NaN])]\<rparr>"
  let ?cu = "[(2::int, PStr ''noise'', 1 / 2 :: real), (3, PStr ''good'', 2 / 3), (4, PStr ''noise'', 3 / 4)]"
  have h: "predict_labels ?lib ex_filesystem (ex_classifier_graded 2)
      (Some ?d) (Some (DataFrame ex_table)) False PNone ex_state =
     (Inr ?cu,
      ex_state
        \<lparr>sorting_obj := ex_sorting\<lparr>properties :=
           [''label_prediction'' \<mapsto> LabelArray [PStr ''noise'', PStr ''good'', PStr ''noise''],
            ''label_confidence'' \<mapsto> FloatArray [1 / 2, 2 / 3, 3 / 4]]\<rparr>,
         model_calls := [(Predict, ?X), (PredictProba, ?X)]\<rparr>)"
    by (simp add: ex_defs ex_more_defs code_defs Let_def)
  from classified_units_confidence [OF h]
  obtain input0 X lc st1 predictions proba labels where
    w: "get_input ?lib (ex_classifier_graded 2) (Some (DataFrame ex_table)) ex_state = Inr input0"
       "sanitize ?lib input0 = Inr X"
       "prepare ?lib (ex_classifier_graded 2) (Some ?d) (Some (DataFrame ex_table)) PNone ex_state
          = (Inr (X, lc), st1)"
       "predict (pipeline (ex_classifier_graded 2)) X = Inr predictions"
       "predict_proba (pipeline (ex_classifier_graded 2)) X = Inr proba"
       "labels = (case lc of None \<Rightarrow> map PInt predictions
                  | Some d \<Rightarrow> map (\<lambda>label. the (d label)) predictions)"
       "distinct (index X) \<and> length predictions = length (index X) \<and> length proba = length (index X)
          \<longrightarrow> ?cu = zip (index X) (zip labels (map (\<lambda>row. Max (set row)) proba))"
    by blast
  have i0: "input0 = ex_table"
    using w(1) by (simp add: get_input_def)
  have X: "X = ?X"
    using w(2) unfolding i0
    by (simp add: ex_defs sanitize_def map_inf_to_nan_def astype_float32_def isinf_def)
  have lc: "lc = Some ?d"
    using w(3)
    by (simp add: ex_defs prepare_def get_input_def default_label_conversion_def sanitize_def
        map_inf_to_nan_def astype_float32_def isinf_def)
  have pr: "predictions = [0, 1, 0]" "proba = [[1 / 2, 1 / 2], [1 / 3, 2 / 3], [1 / 4, 3 / 4]]"
    using w(4,5) unfolding X by (auto simp add: ex_defs ex_more_defs)
  have s: "sanitize ?lib ex_table = Inr X"
    using w(2) i0 by simp
  have pre: "distinct (index X) \<and> length predictions = length (index X) \<and> length proba = length (index X)"
    unfolding X pr by (simp add: ex_defs)
  have z: "?cu = zip (index X) (zip (map (\<lambda>label. the (?d label)) predictions)
                (map (\<lambda>row. Max (set row)) proba))"
    using w(7) pre w(6) lc by simp
  have e: "\<exists>X predictions proba.
         sanitize ?lib ex_table = Inr X
       \<and> predict (pipeline (ex_classifier_graded 2)) X = Inr predictions
       \<and> predict_proba (pipeline (ex_classifier_graded 2)) X = Inr proba
       \<and> predictions = [0, 1, 0]
       \<and> proba = [[1 / 2, 1 / 2], [1 / 3, 2 / 3], [1 / 4, 3 / 4]]
       \<and> ?cu = zip (index X) (zip (map (\<lambda>label. the (?d label)) predictions)
                (map (\<lambda>row. Max (set row)) proba))"
    by (intro exI conjI) (rule s, rule w(4), rule w(5), rule pr(1), rule pr(2), rule z)
  from h e show ?thesis by (rule conjI)
qed

subsection \<open>The table handed to the model\<close>

lemma filter_label_count:
  "map fst (filter (\<lambda>c. fst c = l) cols) = replicate (count_list (map fst cols) l) l"
  by (induction cols) auto

lemma filter_label_once:
  assumes "l \<in> set (map fst cols)" and "count_list (map fst cols) l \<le> 1"
  shows "map fst (filter (\<lambda>c. fst c = l) cols) = [l]"
proof -
  have "count_list (map fst cols) l \<noteq> 0"
    using assms(1) by (simp add: count_list_0_iff)
  then have "count_list (map fst cols) l = 1"
    using assms(2) by simp
  then show ?thesis
    by (simp add: filter_label_count)
qed

lemma select_labels_once:
  "\<forall>l \<in> set labels. l \<in> set (map fst cols) \<and> count_list (map fst cols) l \<le> 1 \<Longrightarrow>
     map fst (concat (map (\<lambda>l. filter (\<lambda>c. fst c = l) cols) labels)) = labels"
  by (induction labels) (simp_all add: filter_label_once)

lemma getitem_columns_once:
  assumes "getitem_columns t labels = Inr t'"
    and "\<forall>l \<in> set labels. count_list (column_labels t) l \<le> 1"
  shows "column_labels t' = labels"
proof -
  have sub: "\<forall>l \<in> set labels. l \<in> set (map fst (columns t))"
    using assms(1) by (auto simp: getitem_columns_def column_labels_def list_all_iff split: if_splits)
  have "t' = t\<lparr>columns := concat (map (\<lambda>l. filter (\<lambda>c. fst c = l) (columns t)) labels)\<rparr>"
    using assms(1) by (auto simp: getitem_columns_def split: if_splits)
  moreover have "map fst (concat (map (\<lambda>l. filter (\<lambda>c. fst c = l) (columns t)) labels)) = labels"
    using sub assms(2) by (intro select_labels_once) (simp add: column_labels_def)
  ultimately show ?thesis
    by (simp add: column_labels_def)
qed

lemma get_metrics_once:
  assumes "get_metrics_for_classification lib slf st = Inr t"
    and "\<forall>merged. merged_metrics lib (sorting_analyzer slf) = Inr merged \<longrightarrow>
           (\<forall>l \<in> set (required_metrics slf). count_list (column_labels merged) l \<le> 1)"
  shows "column_labels t = required_metrics slf"
proof -
  obtain merged where m: "merged_metrics lib (sorting_analyzer slf) = Inr merged"
    using assms(1) by (cases "merged_metrics lib (sorting_analyzer slf)")
      (auto simp: get_metrics_for_classification_def)
  have g: "getitem_columns (loc_isin merged (get_unit_ids (sorting_obj st))) (required_metrics slf) = Inr t"
    using assms(1) m by (auto simp: get_metrics_for_classification_def Let_def split: if_splits)
  have "\<forall>l \<in> set (required_metrics slf).
          count_list (column_labels (loc_isin merged (get_unit_ids (sorting_obj st)))) l \<le> 1"
    using assms(2) m by (simp add: column_labels_loc_isin)
  from getitem_columns_once [OF g this] show ?thesis .
qed

lemma sanitize_labels: "sanitize lib t = Inr X \<Longrightarrow> column_labels X = column_labels t"
  by (auto simp: sanitize_def map_inf_to_nan_def astype_float32_def column_labels_def comp_def
      split: sum.splits if_splits)

lemma apply_classifier_calls:
  assumes "apply_classifier slf X st = (r, st')"
  shows "\<exists>new. model_calls st' = model_calls st @ new \<and> snd ` set new \<subseteq> {X}"
  using assms
  by (auto simp: apply_classifier_def Let_def split: sum.splits)

lemma predict_labels_calls:
  assumes res: "predict_labels lib fs slf label_conversion input_data export_flag pipeline_info st = (r, st')"
    and call: "c \<in> set (drop (length (model_calls st)) (model_calls st'))"
  shows "\<exists>input0. get_input lib slf input_data st = Inr input0 \<and> sanitize lib input0 = Inr (snd c)"
proof -
  obtain r1 st2 where prep: "prepare lib slf label_conversion input_data pipeline_info st = (r1, st2)"
    by (cases "prepare lib slf label_conversion input_data pipeline_info st")
  note f2 = prepare_fields [OF prep]
  show ?thesis
  proof (cases r1)
    case (Inl e)
    then have "st' = st2"
      using res prep by (simp add: predict_labels_def)
    then show ?thesis using call f2 by simp
  next
    case (Inr xl)
    obtain X lc where xl: "xl = (X, lc)" by (cases xl)
    note prep' = prep [unfolded Inr xl]
    obtain r2 st3 where appl: "apply_classifier slf X st2 = (r2, st3)"
      by (cases "apply_classifier slf X st2")
    obtain new where new: "model_calls st3 = model_calls st2 @ new" "snd ` set new \<subseteq> {X}"
      using apply_classifier_calls [OF appl] by blast
    have "model_calls st' = model_calls st3"
      using res prep' appl
      by (auto simp: predict_labels_def Let_def set_property_fields
          split: sum.splits if_splits prod.splits dest: export_to_phy_model_calls)
    then have "c \<in> set new"
      using call new(1) f2 by simp
    then have "snd c = X"
      using new(2) by auto
    then show ?thesis
      using prepare_Inr [OF prep'] by simp
  qed
qed

text \<open>
  C2, as stated, fails, in two ways. A table supplied by the caller is handed to the
  model with the columns it came with: with the columns \<open>b\<close>, \<open>a\<close> for a model
  fitted on \<open>a\<close>, \<open>b\<close>, both calls to the model receive \<open>b\<close>, \<open>a\<close>. And
  when the quality and the template metrics of the analyzer both have a column
  \<open>a\<close>, the selection of the required columns \<open>a\<close>, \<open>b\<close> takes both of them:
  the model receives \<open>a\<close>, \<open>a\<close>, \<open>b\<close>.
\<close>

theorem model_input_columns_counterexample:
  "model_input_labels (snd (predict_labels (ex_library None None) ex_filesystem (ex_classifier 2) None
      (Some (DataFrame ex_table_swapped)) False PNone ex_state)) = [[''b'', ''a''], [''b'', ''a'']]
   \<and> model_input_labels (snd (predict_labels (ex_library (Some ex_quality) (Some ex_template_ab))
      ex_filesystem (ex_classifier 2) None None False PNone ex_state)) =
       [[''a'', ''a'', ''b''], [''a'', ''a'', ''b'']]
   \<and> required_metrics (ex_classifier 2) = [''a'', ''b'']"
  by (simp add: ex_defs ex_more_defs code_defs Let_def)

text \<open>
  C2, amended. For every table that a call of \<open>predict_labels\<close> hands to the
  model: when the table was assembled from the analyzer and no required feature label
  is carried by more than one column of the merged metrics table, its columns are
  exactly the model's required feature columns, in the model's order; when the caller
  supplied the table, its columns are the supplied table's columns, in the supplied
  order.
\<close>

theorem model_input_columns:
  assumes res: "predict_labels lib fs slf label_conversion input_data export_flag pipeline_info st = (r, st')"
    and call: "c \<in> set (drop (length (model_calls st)) (model_calls st'))"
  shows "(input_data = None
            \<and> (\<forall>merged. merged_metrics lib (sorting_analyzer slf) = Inr merged
                  \<longrightarrow> (\<forall>l \<in> set (required_metrics slf). count_list (column_labels merged) l \<le> 1))
          \<longrightarrow> column_labels (snd c) = required_metrics slf)
       \<and> (\<forall>t. input_data = Some (DataFrame t) \<longrightarrow> column_labels (snd c) = column_labels t)"
proof -
  obtain input0 where i: "get_input lib slf input_data st = Inr input0"
      and s: "sanitize lib input0 = Inr (snd c)"
    using predict_labels_calls [OF res call] by blast
  note l = sanitize_labels [OF s]
  have a: "column_labels (snd c) = required_metrics slf"
    if "input_data = None"
      and "\<forall>merged. merged_metrics lib (sorting_analyzer slf) = Inr merged
             \<longrightarrow> (\<forall>l \<in> set (required_metrics slf). count_list (column_labels merged) l \<le> 1)"
    using get_metrics_once [OF _ that(2)] i that(1) l by (simp add: get_input_def)
  have b: "column_labels (snd c) = column_labels t" if "input_data = Some (DataFrame t)" for t
    using i that l by (simp add: get_input_def)
  from a b show ?thesis by blast
qed

theorem model_input_columns_witness:
  "merged_metrics (ex_library (Some ex_quality_az) (Some ex_template_bz)) (sorting_analyzer ex_classifier_ba) =
     Inr \<lparr>index = [2, 3, 4],
          columns = [(''a'', [Finite 1, PosInf, Finite 3]), (''z'', [Finite 7, Finite 7, Finite 7]),
                     (''b'', [Finite 0, Finite 5, NegInf]), (''z'', [Finite 8, Finite 8, Finite 8])]\<rparr>
   \<and> model_calls (snd (predict_labels (ex_library (Some ex_quality_az) (Some ex_template_bz)) ex_filesystem
      ex_classifier_ba None None False PNone ex_state)) =
     [(Predict, \<lparr>index = [2, 3, 4], columns = [(''b'', [Finite 0, Finite 5, NaN]), (''a'', [Finite 1, NaN, Finite 3])]\<rparr>),
      (PredictProba, \<lparr>index = [2, 3, 4], columns = [(''b'', [Finite 0, Finite 5, NaN]), (''a'', [Finite 1, NaN, Finite 3])]\<rparr>)]
   \<and> column_labels \<lparr>index = [2, 3, 4], columns = [(''b'', [Finite 0, Finite 5, NaN]), (''a'', [Finite 1, NaN, Finite 3])]\<rparr>
       = required_metrics ex_classifier_ba
   \<and> required_metrics ex_classifier_ba = [''b'', ''a'']
   \<and> model_calls (snd (predict_labels (ex_library None None) ex_filesystem (ex_classifier 2) None
      (Some (DataFrame ex_table_swapped)) False PNone ex_state)) =
     [(Predict, ex_table_swapped), (PredictProba, ex_table_swapped)]
   \<and> column_labels ex_table_swapped = [''b'', ''a'']"
proof -
  let ?X = "\<lparr>index = [2, 3, 4], columns = [(''b'', [Finite 0, Finite 5, NaN]), (''a'', [Finite 1, NaN, Finite 3])]\<rparr>"
  let ?lib = "ex_library (Some ex_quality_az) (Some ex_template_bz)"
  let ?nolib = "ex_library None None"
  have m: "merged_metrics ?lib (sorting_analyzer ex_classifier_ba) =
     Inr \<lparr>index = [2, 3, 4],
          columns = [(''a'', [Finite 1, PosInf, Finite 3]), (''z'', [Finite 7, Finite 7, Finite 7]),
                     (''b'', [Finite 0, Finite 5, NegInf]), (''z'', [Finite 8, Finite 8, Finite 8])]\<rparr>"
    by (simp add: merged_metrics_def ex_defs ex_more_defs)
  obtain r st' where h: "predict_labels ?lib ex_filesystem ex_classifier_ba None None False PNone ex_state = (r, st')"
    by (cases "predict_labels ?lib ex_filesystem ex_classifier_ba None None False PNone ex_state")
  have calls: "model_calls st' = [(Predict, ?X), (PredictProba, ?X)]"
    using h by (auto simp add: ex_defs ex_more_defs code_defs Let_def)
  have c: "(Predict, ?X) \<in> set (drop (length (model_calls ex_state)) (model_calls st'))"
    by (simp add: calls ex_state_def)
  have rq: "required_metrics ex_classifier_ba = [''b'', ''a'']"
    by (simp add: ex_defs ex_more_defs)
  have d: "\<forall>merged. merged_metrics ?lib (sorting_analyzer ex_classifier_ba) = Inr merged
             \<longrightarrow> (\<forall>l \<in> set (required_metrics ex_classifier_ba). count_list (column_labels merged) l \<le> 1)"
    unfolding m rq by (auto simp add: column_labels_def)
  have k1: "column_labels ?X = required_metrics ex_classifier_ba"
    using model_input_columns [OF h c] d by simp
  obtain r2 st2 where h2: "predict_labels ?nolib ex_filesystem (ex_classifier 2) None
      (Some (DataFrame ex_table_swapped)) False PNone ex_state = (r2, st2)"
    by (cases "predict_labels ?nolib ex_filesystem (ex_classifier 2) None
      (Some (DataFrame ex_table_swapped)) False PNone ex_state")
  have calls2: "model_calls st2 = [(Predict, ex_table_swapped), (PredictProba, ex_table_swapped)]"
    using h2 by (auto simp add: ex_defs code_defs Let_def)
  have c2: "(Predict, ex_table_swapped) \<in> set (drop (length (model_calls ex_state)) (model_calls st2))"
    by (simp add: calls2 ex_state_def)
  have k2: "column_labels ex_table_swapped = [''b'', ''a'']"
    by (simp add: column_labels_def ex_defs)
  from m calls h k1 rq calls2 h2 k2 show ?thesis
    by simp
qed

subsection \<open>Parameter consistency check\<close>

text \<open>
  C3. The check is not free of exceptions: for an analyzer whose quality metrics were
  computed and metadata without a \<open>metric_params\<close> entry, the subscript raises
  \<^verbatim>\<open>KeyError\<close>, nothing catches it, and \<open>predict_labels\<close> ends with that error
  before the model is called.
\<close>

theorem check_params_raises_on_missing_key:
  "predict_labels (ex_library None None) ex_filesystem
      (ModelBasedClassification ex_analyzer_qm (ex_pipeline 2)) None
      (Some (DataFrame ex_table)) False ex_info ex_state =
     (Inl (KeyError ''metric_params''), ex_state)
   \<and> check_params_for_classification (ex_library None None)
      (ModelBasedClassification ex_analyzer_qm (ex_pipeline 2)) ex_info ex_state =
     (Inl (KeyError ''metric_params''), ex_state)
   \<and> model_calls ex_state = []"
  by (simp add: ex_defs code_defs)

subsection \<open>Loading a model\<close>

text \<open>
  C8. A folder with several \<open>.skops\<close> files loads the first one and warns, and a
  folder without any raises \<^verbatim>\<open>AssertionError\<close>; but the warning is the same text
  for every folder and every file chosen, with the placeholders \<open>{folder}\<close> and
  \<open>{skops_file}\<close> left in it.
\<close>

theorem several_skops_files_warning:
  "load_model_from_folder ex_filesystem ex_skio_load (Some ''/models'') None [] =
     (Inr (''/models/a.skops'', PNone),
      [''There are more than 1 '.skops' file in folder {folder}. Selecting {skops_file}. You can specify the file using the 'model_name' argument.'',
       ''No 'model_info.json' file found in folder. No metadata can be checked.''])
   \<and> load_model_from_folder ex_filesystem ex_skio_load (Some ''/other'') None [] =
     (Inr (''/other/x.skops'', PNone),
      [''There are more than 1 '.skops' file in folder {folder}. Selecting {skops_file}. You can specify the file using the 'model_name' argument.'',
       ''No 'model_info.json' file found in folder. No metadata can be checked.''])
   \<and> load_model_from_folder ex_filesystem ex_skio_load (Some ''/data/phy'') None [] =
     (Inl (AssertionError ''There are no '.skops' files in the folder /data/phy''), [])"
  by (simp add: ex_defs load_model_from_folder_def)

end
